theory Spec2Isabelle
  imports Complex_Main
begin

section \<open>Numbers\<close>

text \<open>
  The program computes with numpy's 64-bit floats. A float is modelled as a real number
  or one of the three special values of IEEE arithmetic. Rounding, overflow and the
  sign of zero are not modelled: a finite result is the exact real result, and a zero
  divisor behaves as the positive zero (the value of \<open>1 + rate\<close> at \<open>rate = -1\<close>, and of
  an integer sum that is zero). numpy does not raise on a division by zero: it warns
  and returns an infinity or NaN, which is what \<open>fdiv\<close> returns.
\<close>

datatype fval = Fin real | PInf | NInf | NaN

fun fadd :: "fval \<Rightarrow> fval \<Rightarrow> fval" where
  "fadd (Fin a) (Fin b) = Fin (a + b)"
| "fadd NaN _ = NaN"
| "fadd _ NaN = NaN"
| "fadd PInf NInf = NaN"
| "fadd NInf PInf = NaN"
| "fadd PInf _ = PInf"
| "fadd _ PInf = PInf"
| "fadd NInf _ = NInf"
| "fadd _ NInf = NInf"

fun fdiv :: "fval \<Rightarrow> fval \<Rightarrow> fval" where
  "fdiv (Fin a) (Fin b) =
     (if b = 0 then (if a = 0 then NaN else if 0 < a then PInf else NInf)
      else Fin (a / b))"
| "fdiv NaN _ = NaN"
| "fdiv _ NaN = NaN"
| "fdiv (Fin a) PInf = Fin 0"
| "fdiv (Fin a) NInf = Fin 0"
| "fdiv PInf (Fin b) = (if b < 0 then NInf else PInf)"
| "fdiv NInf (Fin b) = (if b < 0 then PInf else NInf)"
| "fdiv _ _ = NaN"

text \<open>\<open>ndarray.sum()\<close>: the sum of no element is \<open>0.0\<close>.\<close>

primrec fsum :: "fval list \<Rightarrow> fval" where
  "fsum [] = Fin 0"
| "fsum (x # xs) = fadd x (fsum xs)"

section \<open>The table\<close>

text \<open>
  \<open>data\<close> is a pandas DataFrame read from a sheet of the workbook, after
  \<open>fillna(0)\<close>: every cell is a number or a text. A DataFrame is a set of named
  columns over one index; \<open>nrows\<close> is the length of the index, and in a well-formed
  DataFrame every column has that length. Column names are distinct (the map's keys).
\<close>

datatype cell = Numeric real | Text string

record dataframe =
  nrows :: nat
  series :: "string \<rightharpoonup> cell list"

definition columns :: "dataframe \<Rightarrow> string set" where
  "columns df = dom (series df)"

definition wf_dataframe :: "dataframe \<Rightarrow> bool" where
  "wf_dataframe df \<longleftrightarrow> (\<forall>c \<in> ran (series df). length c = nrows df)"

text \<open>
  The exceptions the two evaluations can meet on such a table: \<open>data['X']\<close> raises
  KeyError when the column is absent, and arithmetic on a text cell raises TypeError.
\<close>

datatype py_exception = KeyError string | TypeError

definition getitem :: "dataframe \<Rightarrow> string \<Rightarrow> py_exception + cell list" where
  "getitem df k = (case series df k of None \<Rightarrow> Inl (KeyError k) | Some c \<Rightarrow> Inr c)"

text \<open>
  Series arithmetic is element by element; the result of a subtraction or an addition
  that succeeds is a numeric Series. \<open>str - x\<close>, \<open>x - str\<close> and \<open>float + str\<close> raise
  TypeError.
\<close>

fun cell_sub :: "cell \<Rightarrow> cell \<Rightarrow> py_exception + real" where
  "cell_sub (Numeric a) (Numeric b) = Inr (a - b)"
| "cell_sub _ _ = Inl TypeError"

fun cell_radd :: "real \<Rightarrow> cell \<Rightarrow> py_exception + real" where
  "cell_radd a (Numeric b) = Inr (a + b)"
| "cell_radd _ (Text _) = Inl TypeError"

fun series_sub :: "cell list \<Rightarrow> cell list \<Rightarrow> py_exception + real list" where
  "series_sub (x # xs) (y # ys) =
     (case cell_sub x y of
        Inl e \<Rightarrow> Inl e
      | Inr d \<Rightarrow> (case series_sub xs ys of Inl e \<Rightarrow> Inl e | Inr ds \<Rightarrow> Inr (d # ds)))"
| "series_sub _ _ = Inr []"

fun series_add :: "real list \<Rightarrow> cell list \<Rightarrow> py_exception + real list" where
  "series_add (x # xs) (y # ys) =
     (case cell_radd x y of
        Inl e \<Rightarrow> Inl e
      | Inr d \<Rightarrow> (case series_add xs ys of Inl e \<Rightarrow> Inl e | Inr ds \<Rightarrow> Inr (d # ds)))"
| "series_add _ _ = Inr []"

text \<open>\<open>Series.sum()\<close> of a column.\<close>

fun series_sum :: "cell list \<Rightarrow> py_exception + real" where
  "series_sum [] = Inr 0"
| "series_sum (Numeric a # cs) =
     (case series_sum cs of Inl e \<Rightarrow> Inl e | Inr s \<Rightarrow> Inr (a + s))"
| "series_sum (Text _ # cs) = Inl TypeError"

text \<open>\<open>(cash_flows < 0).sum()\<close>: a Series of booleans, summed as integers.\<close>

definition series_lt :: "real list \<Rightarrow> real \<Rightarrow> bool list" where
  "series_lt xs c = map (\<lambda>x. x < c) xs"

definition bool_sum :: "bool list \<Rightarrow> int" where
  "bool_sum bs = sum_list (map (\<lambda>b. if b then 1 else 0) bs)"

section \<open>numpy_financial\<close>

text \<open>
  \<open>npf.npv\<close> and \<open>npf.irr\<close> belong to the library numpy_financial, not to the
  program; they are modelled after the library's release 1.0.0.

  \<^verbatim>\<open>npv(rate, values)\<close> is
  \<^verbatim>\<open>(values / (1+rate)**np.arange(0, len(values))).sum(axis=0)\<close>.

  \<^verbatim>\<open>irr(values)\<close> takes the roots of the polynomial whose coefficients are the values
  (\<open>np.roots(values[::-1])\<close>, which has no root when every coefficient is zero), keeps
  the real roots \<open>x > 0\<close>, returns \<open>np.nan\<close> when there is none, and otherwise the
  rate \<open>1/x - 1\<close> closest to zero. The library finds the roots numerically; the model
  takes the exact roots, so \<open>npf_irr\<close> is a specification of the library function and
  computes only where the set of roots is decided by a lemma.
\<close>

definition npf_npv :: "real \<Rightarrow> real list \<Rightarrow> fval" where
  "npf_npv rate values =
     fsum (map2 (\<lambda>v t. fdiv (Fin v) (Fin ((1 + rate) ^ t))) values [0..<length values])"

definition irr_rates :: "real list \<Rightarrow> real set" where
  "irr_rates values =
     {1 / x - 1 | x. 0 < x \<and> (\<Sum>t<length values. values ! t * x ^ t) = 0}"

definition npf_irr :: "real list \<Rightarrow> fval" where
  "npf_irr values =
     (if (\<forall>v \<in> set values. v = 0) \<or> irr_rates values = {} then NaN
      else Fin (arg_min_on abs (irr_rates values)))"

section \<open>The two evaluations\<close>

text \<open>
  \<open>st.error\<close> displays a message on the page. The page is a list of the messages
  displayed so far; a message is the fixed text of the f-string and the exception it
  formats. The state of a call is the table (passed by reference) and the page.
  A Python string is a list of code points; the accented letters of the French texts
  are below 256 and are written by their code.
\<close>

datatype st_event = StError string py_exception

record world =
  frame :: dataframe
  st_out :: "st_event list"

definition st_error :: "string \<Rightarrow> py_exception \<Rightarrow> world \<Rightarrow> world" where
  "st_error msg e w = w\<lparr>st_out := st_out w @ [StError msg e]\<rparr>"

definition financial_message :: string where
  "financial_message =
     ''Erreur dans l'' @ [CHR 0x27] @ [CHR 0xE9] @ ''valuation financi'' @ [CHR 0xE8] @ ''re : ''"

definition economic_message :: string where
  "economic_message =
     ''Erreur dans l'' @ [CHR 0x27] @ [CHR 0xE9] @ ''valuation '' @ [CHR 0xE9] @ ''conomique : ''"

text \<open>The body of the \<open>try\<close> of \<open>financial_evaluation\<close> (lines 22 to 26).\<close>

definition financial_try :: "dataframe \<Rightarrow> real \<Rightarrow> py_exception + (fval \<times> fval \<times> int)" where
  "financial_try data discount_rate =
     (case getitem data ''Revenues'' of Inl e \<Rightarrow> Inl e | Inr revenues \<Rightarrow>
      case getitem data ''Total_Costs'' of Inl e \<Rightarrow> Inl e | Inr total_costs \<Rightarrow>
      case series_sub revenues total_costs of Inl e \<Rightarrow> Inl e | Inr cash_flows \<Rightarrow>
        (let npv_f = npf_npv discount_rate cash_flows;
             irr_f = npf_irr cash_flows;
             drc = bool_sum (series_lt cash_flows 0)
         in Inr (npv_f, irr_f, drc)))"

text \<open>
  \<open>financial_evaluation\<close>: the \<open>except Exception\<close> branch displays the error and
  returns \<open>(None, None, None)\<close>.
\<close>

definition financial_evaluation ::
  "real \<Rightarrow> world \<Rightarrow> (fval option \<times> fval option \<times> int option) \<times> world" where
  "financial_evaluation discount_rate w =
     (case financial_try (frame w) discount_rate of
        Inr (npv_f, irr_f, drc) \<Rightarrow> ((Some npv_f, Some irr_f, Some drc), w)
      | Inl e \<Rightarrow> ((None, None, None), st_error financial_message e w))"

text \<open>The body of the \<open>try\<close> of \<open>economic_evaluation\<close> (lines 34 to 38).\<close>

definition economic_try :: "dataframe \<Rightarrow> real \<Rightarrow> py_exception + (fval \<times> fval \<times> fval)" where
  "economic_try data discount_rate =
     (case getitem data ''Corrected_Revenues'' of Inl e \<Rightarrow> Inl e | Inr corrected_revenues \<Rightarrow>
      case getitem data ''Corrected_Costs'' of Inl e \<Rightarrow> Inl e | Inr corrected_costs \<Rightarrow>
      case series_sub corrected_revenues corrected_costs of Inl e \<Rightarrow> Inl e | Inr diff \<Rightarrow>
      case getitem data ''Externalities'' of Inl e \<Rightarrow> Inl e | Inr externalities \<Rightarrow>
      case series_add diff externalities of Inl e \<Rightarrow> Inl e | Inr cash_flows \<Rightarrow>
        (let npv_e = npf_npv discount_rate cash_flows;
             irr_e = npf_irr cash_flows
         in case getitem data ''Corrected_Costs'' of Inl e \<Rightarrow> Inl e | Inr costs \<Rightarrow>
            case series_sum costs of Inl e \<Rightarrow> Inl e | Inr costs_sum \<Rightarrow>
              Inr (npv_e, irr_e, fdiv npv_e (Fin costs_sum))))"

definition economic_evaluation ::
  "real \<Rightarrow> world \<Rightarrow> (fval option \<times> fval option \<times> fval option) \<times> world" where
  "economic_evaluation discount_rate w =
     (case economic_try (frame w) discount_rate of
        Inr (npv_e, irr_e, rca) \<Rightarrow> ((Some npv_e, Some irr_e, Some rca), w)
      | Inl e \<Rightarrow> ((None, None, None), st_error economic_message e w))"

section \<open>The run of an evaluation\<close>

datatype language = Fr | En

datatype indicator = VANF | TRIF | DRC | VANE | TRIE | RCA

fun TRANSLATIONS :: "indicator \<Rightarrow> language \<Rightarrow> string" where
  "TRANSLATIONS VANF Fr = ''Valeur Actuelle Nette Financi'' @ [CHR 0xE8] @ ''re''"
| "TRANSLATIONS VANF En = ''Financial Net Present Value''"
| "TRANSLATIONS TRIF Fr = ''Taux de Rendement Interne Financier''"
| "TRANSLATIONS TRIF En = ''Financial Internal Rate of Return''"
| "TRANSLATIONS DRC Fr =
     ''D'' @ [CHR 0xE9] @ ''lai de R'' @ [CHR 0xE9] @ ''cup'' @ [CHR 0xE9] @ ''ration du Capital''"
| "TRANSLATIONS DRC En = ''Capital Recovery Period''"
| "TRANSLATIONS VANE Fr = ''Valeur Actuelle Nette '' @ [CHR 0xC9] @ ''conomique''"
| "TRANSLATIONS VANE En = ''Economic Net Present Value''"
| "TRANSLATIONS TRIE Fr = ''Taux de Rendement Interne '' @ [CHR 0xC9] @ ''conomique''"
| "TRANSLATIONS TRIE En = ''Economic Internal Rate of Return''"
| "TRANSLATIONS RCA Fr = ''Rendement du Capital Ajust'' @ [CHR 0xE9]"
| "TRANSLATIONS RCA En = ''Adjusted Capital Yield''"

text \<open>
  A row of \<open>results\<close> is the dictionary \<^verbatim>\<open>{'Indicateur': label, 'Valeur': x}\<close>; the
  value is a float, or the integer count of the recovery period.
\<close>

datatype valeur = FloatV fval | IntV int

record result_row =
  Indicateur :: string
  Valeur :: valeur

text \<open>\<^verbatim>\<open>if x is not None: results.append({...})\<close>, as the rows it adds.\<close>

definition append_if :: "indicator \<Rightarrow> language \<Rightarrow> valeur option \<Rightarrow> result_row list" where
  "append_if code lang x =
     (case x of
        None \<Rightarrow> []
      | Some v \<Rightarrow> [\<lparr>Indicateur = TRANSLATIONS code lang, Valeur = v\<rparr>])"

definition has_financial :: "dataframe \<Rightarrow> bool" where
  "has_financial data \<longleftrightarrow>
     {''Year'', ''Total_Costs'', ''Revenues'', ''Residual_Value''} \<subseteq> columns data"

definition has_economic :: "dataframe \<Rightarrow> bool" where
  "has_economic data \<longleftrightarrow>
     {''Corrected_Costs'', ''Corrected_Revenues'', ''Externalities''} \<subseteq> columns data"

text \<open>Lines 76 to 83: the rows the financial group appends, and the state after it.\<close>

definition financial_block ::
  "language \<Rightarrow> real \<Rightarrow> world \<Rightarrow> result_row list \<times> world" where
  "financial_block lang discount_rate w =
     (if has_financial (frame w) then
        (case financial_evaluation discount_rate w of
           ((npv_f, irr_f, drc), w') \<Rightarrow>
             (append_if VANF lang (map_option FloatV npv_f)
              @ append_if TRIF lang (map_option FloatV irr_f)
              @ append_if DRC lang (map_option IntV drc), w'))
      else ([], w))"

text \<open>Lines 85 to 92: the same for the economic group.\<close>

definition economic_block ::
  "language \<Rightarrow> real \<Rightarrow> world \<Rightarrow> result_row list \<times> world" where
  "economic_block lang discount_rate w =
     (if has_economic (frame w) then
        (case economic_evaluation discount_rate w of
           ((npv_e, irr_e, rca), w') \<Rightarrow>
             (append_if VANE lang (map_option FloatV npv_e)
              @ append_if TRIE lang (map_option FloatV irr_e)
              @ append_if RCA lang (map_option FloatV rca), w'))
      else ([], w))"

text \<open>
  The run that the button starts (lines 63 to 92 of \<open>main\<close>): the rate is the number
  typed, divided by 100; \<open>results\<close> starts empty, on a page without messages; the
  financial group comes first. It returns \<open>results\<close> and the final state.
\<close>

definition main_eval ::
  "language \<Rightarrow> dataframe \<Rightarrow> real \<Rightarrow> result_row list \<times> world" where
  "main_eval lang data rate_percent =
     (let discount_rate = rate_percent / 100;
          w0 = \<lparr>frame = data, st_out = []\<rparr>
      in case financial_block lang discount_rate w0 of
           (rows_f, w1) \<Rightarrow>
             (case economic_block lang discount_rate w1 of
                (rows_e, w2) \<Rightarrow> ([] @ rows_f @ rows_e, w2)))"

section \<open>What a run shows\<close>

text \<open>
  The labels of the two groups of indicators, and what a reader of the page can see of
  a group that ran: one of its rows in the results, or its error message.
\<close>

definition financial_labels :: "language \<Rightarrow> string set" where
  "financial_labels lang = {TRANSLATIONS VANF lang, TRANSLATIONS TRIF lang, TRANSLATIONS DRC lang}"

definition economic_labels :: "language \<Rightarrow> string set" where
  "economic_labels lang = {TRANSLATIONS VANE lang, TRANSLATIONS TRIE lang, TRANSLATIONS RCA lang}"

definition financial_ran :: "language \<Rightarrow> result_row list \<times> world \<Rightarrow> bool" where
  "financial_ran lang out \<longleftrightarrow>
     (\<exists>row \<in> set (fst out). Indicateur row \<in> financial_labels lang)
     \<or> (\<exists>e. StError financial_message e \<in> set (st_out (snd out)))"

definition economic_ran :: "language \<Rightarrow> result_row list \<times> world \<Rightarrow> bool" where
  "economic_ran lang out \<longleftrightarrow>
     (\<exists>row \<in> set (fst out). Indicateur row \<in> economic_labels lang)
     \<or> (\<exists>e. StError economic_message e \<in> set (st_out (snd out)))"

section \<open>Example tables\<close>

text \<open>
  The table of the specification's first test: net cash flows 50, -50, 50, and no
  economic column.
\<close>

definition example_financial :: dataframe where
  "example_financial =
     \<lparr>nrows = 3,
      series = [''Year'' \<mapsto> map Numeric [2020, 2021, 2022],
                ''Revenues'' \<mapsto> map Numeric [100, 100, 100],
                ''Total_Costs'' \<mapsto> map Numeric [50, 150, 50],
                ''Residual_Value'' \<mapsto> map Numeric [0, 0, 0]]\<rparr>"

text \<open>The same cash flows under other years and residual values.\<close>

definition example_financial_other :: dataframe where
  "example_financial_other =
     \<lparr>nrows = 3,
      series = [''Year'' \<mapsto> map Numeric [1, 2, 3],
                ''Revenues'' \<mapsto> map Numeric [100, 100, 100],
                ''Total_Costs'' \<mapsto> map Numeric [50, 150, 50],
                ''Residual_Value'' \<mapsto> map Numeric [7, 8, 9]]\<rparr>"



text \<open>Economic columns whose corrected costs sum to zero; net cash flows 10, 20.\<close>

definition example_zero_costs :: dataframe where
  "example_zero_costs =
     \<lparr>nrows = 2,
      series = [''Corrected_Revenues'' \<mapsto> map Numeric [10, 20],
                ''Corrected_Costs'' \<mapsto> map Numeric [0, 0],
                ''Externalities'' \<mapsto> map Numeric [0, 0]]\<rparr>"


text \<open>All seven columns, with a text in a cell of Revenues and of Externalities.\<close>

definition example_text :: dataframe where
  "example_text =
     \<lparr>nrows = 2,
      series = [''Year'' \<mapsto> map Numeric [2020, 2021],
                ''Revenues'' \<mapsto> [Numeric 100, Text ''n/a''],
                ''Total_Costs'' \<mapsto> map Numeric [50, 50],
                ''Residual_Value'' \<mapsto> map Numeric [0, 0],
                ''Corrected_Revenues'' \<mapsto> map Numeric [10, 100],
                ''Corrected_Costs'' \<mapsto> map Numeric [40, 60],
                ''Externalities'' \<mapsto> [Text ''?'', Numeric 10]]\<rparr>"

text \<open>All seven columns, numeric.\<close>

definition example_full :: dataframe where
  "example_full =
     \<lparr>nrows = 2,
      series = [''Year'' \<mapsto> map Numeric [2020, 2021],
                ''Revenues'' \<mapsto> map Numeric [100, 100],
                ''Total_Costs'' \<mapsto> map Numeric [150, 50],
                ''Residual_Value'' \<mapsto> map Numeric [0, 0],
                ''Corrected_Revenues'' \<mapsto> map Numeric [10, 100],
                ''Corrected_Costs'' \<mapsto> map Numeric [40, 60],
                ''Externalities'' \<mapsto> map Numeric [5, 10]]\<rparr>"

section \<open>Auxiliary facts\<close>




lemma series_sub_length:
  "series_sub xs ys = Inr ds \<Longrightarrow> length ds = min (length xs) (length ys)"
proof (induction xs ys arbitrary: ds rule: series_sub.induct)
  case (1 x xs y ys)
  then show ?case by (auto split: sum.splits)
qed simp_all


lemma bool_sum_bounds: "0 \<le> bool_sum bs \<and> bool_sum bs \<le> int (length bs)"
  by (induction bs) (simp_all add: bool_sum_def)




text \<open>
  At \<open>rate = -1\<close>, which no discount rate of the program is, numpy divides by zero from
  period 1 on and the result is NaN or an infinity.
\<close>

lemma npf_npv_rate_minus_one: "npf_npv (- 1) [0, 0] = NaN \<and> npf_npv (- 1) [5, 3] = PInf"
  by (simp add: npf_npv_def numeral_2_eq_2)




section \<open>The financial indicators\<close>





text \<open>
  What the recovery period of a successful call is bounded by: the \<open>try\<close> succeeds
  only if the Revenues column is there, and the net cash flows are no longer than it.
\<close>

lemma financial_try_length:
  assumes "financial_try data r = Inr (n, i, d)" and "wf_dataframe data"
  shows "0 \<le> d \<and> d \<le> int (nrows data)"
proof -
  from assms(1) obtain revenues costs cash_flows where
    rv: "series data ''Revenues'' = Some revenues" and
    sub: "series_sub revenues costs = Inr cash_flows" and
    d: "d = bool_sum (series_lt cash_flows 0)"
    by (auto simp: financial_try_def getitem_def Let_def split: option.splits sum.splits)
  from rv assms(2) have "length revenues = nrows data"
    by (auto simp: wf_dataframe_def ran_def)
  with series_sub_length [OF sub] have "length cash_flows \<le> nrows data" by simp
  moreover have "length (series_lt cash_flows 0) = length cash_flows"
    by (simp add: series_lt_def)
  ultimately show ?thesis
    using bool_sum_bounds [of "series_lt cash_flows 0"] d by simp
qed

lemma wf_dataframeI:
  assumes "\<And>k c. series df k = Some c \<Longrightarrow> length c = nrows df"
  shows "wf_dataframe df"
  using assms by (auto simp: wf_dataframe_def ran_def)

lemma wf_example_financial: "wf_dataframe example_financial"
proof (rule wf_dataframeI)
  fix k c
  assume "series example_financial k = Some c"
  then show "length c = nrows example_financial"
    by (auto simp: example_financial_def split: if_splits)
qed

text \<open>
  C10. When \<open>financial_evaluation\<close> succeeds on a well-formed table, the recovery
  period it returns is an integer between 0 and the number of rows of the table.
\<close>

theorem recovery_period_bounds:
  assumes "wf_dataframe (frame w)"
    and "fst (financial_evaluation r w) = (Some n, Some i, Some d)"
  shows "0 \<le> d \<and> d \<le> int (nrows (frame w))"
proof -
  from assms(2) have "financial_try (frame w) r = Inr (n, i, d)"
    by (auto simp: financial_evaluation_def split: sum.splits)
  then show ?thesis using assms(1) by (rule financial_try_length)
qed

theorem recovery_period_bounds_witness:
  "wf_dataframe example_financial
   \<and> fst (financial_evaluation (8 / 100) \<lparr>frame = example_financial, st_out = []\<rparr>) =
       (Some (npf_npv (8 / 100) [50, - 50, 50]), Some (npf_irr [50, - 50, 50]), Some 1)
   \<and> (0::int) \<le> 1 \<and> (1::int) \<le> int (nrows example_financial)"
proof -
  have run: "fst (financial_evaluation (8 / 100) \<lparr>frame = example_financial, st_out = []\<rparr>) =
       (Some (npf_npv (8 / 100) [50, - 50, 50]), Some (npf_irr [50, - 50, 50]), Some 1)"
    by (simp add: financial_evaluation_def financial_try_def getitem_def example_financial_def
        series_lt_def bool_sum_def)
  have "(0::int) \<le> 1 \<and> (1::int) \<le> int (nrows (frame \<lparr>frame = example_financial, st_out = []\<rparr>))"
    using wf_example_financial run by (intro recovery_period_bounds) simp_all
  with wf_example_financial run show ?thesis by simp
qed

text \<open>
  C8. \<open>financial_evaluation\<close> reads the Revenues and Total_Costs columns only: two
  tables that agree on these two columns give the same npv, irr and recovery period at
  the same rate, whatever their Year and Residual_Value columns hold (the two columns
  that \<open>main\<close> requires before it calls the function). The example tables both have
  the four columns and differ in Year and in Residual_Value.
\<close>

theorem financial_ignores_year_and_residual_value:
  assumes "series (frame w1) ''Revenues'' = series (frame w2) ''Revenues''"
    and "series (frame w1) ''Total_Costs'' = series (frame w2) ''Total_Costs''"
  shows "fst (financial_evaluation r w1) = fst (financial_evaluation r w2)"
proof -
  have "getitem (frame w1) ''Revenues'' = getitem (frame w2) ''Revenues''"
    and "getitem (frame w1) ''Total_Costs'' = getitem (frame w2) ''Total_Costs''"
    using assms by (simp_all add: getitem_def)
  then have "financial_try (frame w1) r = financial_try (frame w2) r"
    unfolding financial_try_def by (simp only:)
  then show ?thesis
    by (simp add: financial_evaluation_def split: sum.splits prod.splits)
qed

theorem financial_ignores_year_and_residual_value_witness:
  "has_financial example_financial \<and> has_financial example_financial_other
   \<and> series example_financial ''Year'' \<noteq> series example_financial_other ''Year''
   \<and> series example_financial ''Residual_Value'' \<noteq> series example_financial_other ''Residual_Value''
   \<and> fst (financial_evaluation (8 / 100) \<lparr>frame = example_financial, st_out = []\<rparr>)
     = fst (financial_evaluation (8 / 100) \<lparr>frame = example_financial_other, st_out = []\<rparr>)"
proof -
  have "fst (financial_evaluation (8 / 100) \<lparr>frame = example_financial, st_out = []\<rparr>)
     = fst (financial_evaluation (8 / 100) \<lparr>frame = example_financial_other, st_out = []\<rparr>)"
    by (rule financial_ignores_year_and_residual_value)
       (simp_all add: example_financial_def example_financial_other_def)
  then show ?thesis
    by (simp add: has_financial_def columns_def example_financial_def example_financial_other_def)
qed

text \<open>
  C9. Neither evaluation changes the table: after the call, on success and on failure,
  the table of the state is the table the call received. (Only the page changes, and
  only when the call fails.)
\<close>

theorem evaluations_leave_table_unchanged:
  "frame (snd (financial_evaluation r w)) = frame w
   \<and> frame (snd (economic_evaluation r w)) = frame w"
  by (simp add: financial_evaluation_def economic_evaluation_def st_error_def
      split: sum.splits prod.splits)

theorem evaluations_leave_table_unchanged_witness:
  "frame (snd (financial_evaluation (8 / 100) \<lparr>frame = example_full, st_out = []\<rparr>)) = example_full
   \<and> frame (snd (economic_evaluation (8 / 100) \<lparr>frame = example_full, st_out = []\<rparr>)) = example_full
   \<and> frame (snd (financial_evaluation (8 / 100) \<lparr>frame = example_text, st_out = []\<rparr>)) = example_text
   \<and> frame (snd (economic_evaluation (8 / 100) \<lparr>frame = example_text, st_out = []\<rparr>)) = example_text"
  using evaluations_leave_table_unchanged [of "8 / 100" "\<lparr>frame = example_full, st_out = []\<rparr>"]
    evaluations_leave_table_unchanged [of "8 / 100" "\<lparr>frame = example_text, st_out = []\<rparr>"]
  by simp

section \<open>The run: rows, messages and labels\<close>


lemma financial_evaluation_success:
  "financial_try (frame w) r = Inr (n, i, d) \<Longrightarrow>
   financial_evaluation r w = ((Some n, Some i, Some d), w)"
  by (simp add: financial_evaluation_def)

lemma financial_evaluation_failure:
  "financial_try (frame w) r = Inl e \<Longrightarrow>
   financial_evaluation r w = ((None, None, None), st_error financial_message e w)"
  by (simp add: financial_evaluation_def)

lemma economic_evaluation_success:
  "economic_try (frame w) r = Inr (n, i, y) \<Longrightarrow>
   economic_evaluation r w = ((Some n, Some i, Some y), w)"
  by (simp add: economic_evaluation_def)

lemma economic_evaluation_failure:
  "economic_try (frame w) r = Inl e \<Longrightarrow>
   economic_evaluation r w = ((None, None, None), st_error economic_message e w)"
  by (simp add: economic_evaluation_def)

lemma financial_block_skip:
  "\<not> has_financial (frame w) \<Longrightarrow> financial_block l r w = ([], w)"
  by (simp add: financial_block_def)

lemma financial_block_success:
  "has_financial (frame w) \<Longrightarrow> financial_try (frame w) r = Inr (n, i, d) \<Longrightarrow>
   financial_block l r w =
     ([\<lparr>Indicateur = TRANSLATIONS VANF l, Valeur = FloatV n\<rparr>,
       \<lparr>Indicateur = TRANSLATIONS TRIF l, Valeur = FloatV i\<rparr>,
       \<lparr>Indicateur = TRANSLATIONS DRC l, Valeur = IntV d\<rparr>], w)"
  by (simp add: financial_block_def financial_evaluation_success append_if_def)

lemma financial_block_failure:
  "has_financial (frame w) \<Longrightarrow> financial_try (frame w) r = Inl e \<Longrightarrow>
   financial_block l r w = ([], st_error financial_message e w)"
  by (simp add: financial_block_def financial_evaluation_failure append_if_def)

lemma economic_block_skip:
  "\<not> has_economic (frame w) \<Longrightarrow> economic_block l r w = ([], w)"
  by (simp add: economic_block_def)

lemma economic_block_success:
  "has_economic (frame w) \<Longrightarrow> economic_try (frame w) r = Inr (n, i, y) \<Longrightarrow>
   economic_block l r w =
     ([\<lparr>Indicateur = TRANSLATIONS VANE l, Valeur = FloatV n\<rparr>,
       \<lparr>Indicateur = TRANSLATIONS TRIE l, Valeur = FloatV i\<rparr>,
       \<lparr>Indicateur = TRANSLATIONS RCA l, Valeur = FloatV y\<rparr>], w)"
  by (simp add: economic_block_def economic_evaluation_success append_if_def)

lemma economic_block_failure:
  "has_economic (frame w) \<Longrightarrow> economic_try (frame w) r = Inl e \<Longrightarrow>
   economic_block l r w = ([], st_error economic_message e w)"
  by (simp add: economic_block_def economic_evaluation_failure append_if_def)


lemma main_eval_blocks:
  "main_eval l data p =
     (fst (financial_block l (p / 100) \<lparr>frame = data, st_out = []\<rparr>)
        @ fst (economic_block l (p / 100)
                (snd (financial_block l (p / 100) \<lparr>frame = data, st_out = []\<rparr>))),
      snd (economic_block l (p / 100)
            (snd (financial_block l (p / 100) \<lparr>frame = data, st_out = []\<rparr>))))"
  by (simp add: main_eval_def Let_def split: prod.splits)

lemma messages_differ: "financial_message \<noteq> economic_message"
  by (simp add: financial_message_def economic_message_def)

lemma group_labels:
  "TRANSLATIONS VANF l \<in> financial_labels l"
  "TRANSLATIONS TRIF l \<in> financial_labels l"
  "TRANSLATIONS DRC l \<in> financial_labels l"
  "TRANSLATIONS VANE l \<notin> financial_labels l"
  "TRANSLATIONS TRIE l \<notin> financial_labels l"
  "TRANSLATIONS RCA l \<notin> financial_labels l"
  "TRANSLATIONS VANE l \<in> economic_labels l"
  "TRANSLATIONS TRIE l \<in> economic_labels l"
  "TRANSLATIONS RCA l \<in> economic_labels l"
  "TRANSLATIONS VANF l \<notin> economic_labels l"
  "TRANSLATIONS TRIF l \<notin> economic_labels l"
  "TRANSLATIONS DRC l \<notin> economic_labels l"
  by (cases l; simp add: financial_labels_def economic_labels_def)+

lemma st_error_out: "st_out (st_error m e w) = st_out w @ [StError m e]"
  and st_error_frame: "frame (st_error m e w) = frame w"
  by (simp_all add: st_error_def)

lemma financial_block_cases:
  obtains (skip) "\<not> has_financial (frame w)" "financial_block l r w = ([], w)"
  | (success) n i d where "has_financial (frame w)"
      "financial_try (frame w) r = Inr (n, i, d)"
      "financial_block l r w =
         ([\<lparr>Indicateur = TRANSLATIONS VANF l, Valeur = FloatV n\<rparr>,
           \<lparr>Indicateur = TRANSLATIONS TRIF l, Valeur = FloatV i\<rparr>,
           \<lparr>Indicateur = TRANSLATIONS DRC l, Valeur = IntV d\<rparr>], w)"
  | (failure) e where "has_financial (frame w)"
      "financial_try (frame w) r = Inl e"
      "financial_block l r w = ([], st_error financial_message e w)"
proof (cases "has_financial (frame w)")
  case False
  then show ?thesis using skip by (simp add: financial_block_skip)
next
  case True
  show ?thesis
  proof (cases "financial_try (frame w) r")
    case (Inl e)
    with True show ?thesis using failure by (simp add: financial_block_failure)
  next
    case (Inr t)
    then obtain n i d where "financial_try (frame w) r = Inr (n, i, d)" by (cases t) auto
    with True show ?thesis using success by (simp add: financial_block_success)
  qed
qed

lemma economic_block_cases:
  obtains (skip) "\<not> has_economic (frame w)" "economic_block l r w = ([], w)"
  | (success) n i y where "has_economic (frame w)"
      "economic_try (frame w) r = Inr (n, i, y)"
      "economic_block l r w =
         ([\<lparr>Indicateur = TRANSLATIONS VANE l, Valeur = FloatV n\<rparr>,
           \<lparr>Indicateur = TRANSLATIONS TRIE l, Valeur = FloatV i\<rparr>,
           \<lparr>Indicateur = TRANSLATIONS RCA l, Valeur = FloatV y\<rparr>], w)"
  | (failure) e where "has_economic (frame w)"
      "economic_try (frame w) r = Inl e"
      "economic_block l r w = ([], st_error economic_message e w)"
proof (cases "has_economic (frame w)")
  case False
  then show ?thesis using skip by (simp add: economic_block_skip)
next
  case True
  show ?thesis
  proof (cases "economic_try (frame w) r")
    case (Inl e)
    with True show ?thesis using failure by (simp add: economic_block_failure)
  next
    case (Inr t)
    then obtain n i y where "economic_try (frame w) r = Inr (n, i, y)" by (cases t) auto
    with True show ?thesis using success by (simp add: economic_block_success)
  qed
qed

lemma financial_block_coded:
  "\<exists>cvs w'. \<forall>l. financial_block l r w =
     (map (\<lambda>(c, v). \<lparr>Indicateur = TRANSLATIONS c l, Valeur = v\<rparr>) cvs, w')"
proof (cases rule: financial_block_cases [of w Fr r])
  case skip
  then have "\<forall>l. financial_block l r w =
     (map (\<lambda>(c, v). \<lparr>Indicateur = TRANSLATIONS c l, Valeur = v\<rparr>) [], w)"
    by (simp add: financial_block_skip)
  then show ?thesis by blast
next
  case (success n i d)
  then have "\<forall>l. financial_block l r w =
     (map (\<lambda>(c, v). \<lparr>Indicateur = TRANSLATIONS c l, Valeur = v\<rparr>)
        [(VANF, FloatV n), (TRIF, FloatV i), (DRC, IntV d)], w)"
    by (simp add: financial_block_success)
  then show ?thesis by blast
next
  case (failure e)
  then have "\<forall>l. financial_block l r w =
     (map (\<lambda>(c, v). \<lparr>Indicateur = TRANSLATIONS c l, Valeur = v\<rparr>) [],
      st_error financial_message e w)"
    by (simp add: financial_block_failure)
  then show ?thesis by blast
qed

lemma economic_block_coded:
  "\<exists>cvs w'. \<forall>l. economic_block l r w =
     (map (\<lambda>(c, v). \<lparr>Indicateur = TRANSLATIONS c l, Valeur = v\<rparr>) cvs, w')"
proof (cases rule: economic_block_cases [of w Fr r])
  case skip
  then have "\<forall>l. economic_block l r w =
     (map (\<lambda>(c, v). \<lparr>Indicateur = TRANSLATIONS c l, Valeur = v\<rparr>) [], w)"
    by (simp add: economic_block_skip)
  then show ?thesis by blast
next
  case (success n i y)
  then have "\<forall>l. economic_block l r w =
     (map (\<lambda>(c, v). \<lparr>Indicateur = TRANSLATIONS c l, Valeur = v\<rparr>)
        [(VANE, FloatV n), (TRIE, FloatV i), (RCA, FloatV y)], w)"
    by (simp add: economic_block_success)
  then show ?thesis by blast
next
  case (failure e)
  then have "\<forall>l. economic_block l r w =
     (map (\<lambda>(c, v). \<lparr>Indicateur = TRANSLATIONS c l, Valeur = v\<rparr>) [],
      st_error economic_message e w)"
    by (simp add: economic_block_failure)
  then show ?thesis by blast
qed

lemma main_eval_coded:
  "\<exists>cvs w'. \<forall>l. main_eval l data p =
     (map (\<lambda>(c, v). \<lparr>Indicateur = TRANSLATIONS c l, Valeur = v\<rparr>) cvs, w')"
proof -
  obtain cvs1 w1 where f: "\<And>l. financial_block l (p / 100) \<lparr>frame = data, st_out = []\<rparr> =
     (map (\<lambda>(c, v). \<lparr>Indicateur = TRANSLATIONS c l, Valeur = v\<rparr>) cvs1, w1)"
    using financial_block_coded [of "p / 100" "\<lparr>frame = data, st_out = []\<rparr>"] by blast
  obtain cvs2 w2 where e: "\<And>l. economic_block l (p / 100) w1 =
     (map (\<lambda>(c, v). \<lparr>Indicateur = TRANSLATIONS c l, Valeur = v\<rparr>) cvs2, w2)"
    using economic_block_coded [of "p / 100" w1] by blast
  have "\<forall>l. main_eval l data p =
     (map (\<lambda>(c, v). \<lparr>Indicateur = TRANSLATIONS c l, Valeur = v\<rparr>) (cvs1 @ cvs2), w2)"
    by (simp add: main_eval_blocks f e)
  then show ?thesis by blast
qed

text \<open>
  C7. For every table and rate, the run in French and the run in English give the same
  values in the same order and end in the same state; the labels are those of one list
  of indicator codes, read in the column of the language in \<open>TRANSLATIONS\<close>.
\<close>

theorem language_changes_labels_only:
  "map Valeur (fst (main_eval Fr data p)) = map Valeur (fst (main_eval En data p))
   \<and> snd (main_eval Fr data p) = snd (main_eval En data p)
   \<and> (\<exists>codes.
        map Indicateur (fst (main_eval Fr data p)) = map (\<lambda>c. TRANSLATIONS c Fr) codes
      \<and> map Indicateur (fst (main_eval En data p)) = map (\<lambda>c. TRANSLATIONS c En) codes)"
proof -
  obtain cvs w' where m: "\<And>l. main_eval l data p =
     (map (\<lambda>(c, v). \<lparr>Indicateur = TRANSLATIONS c l, Valeur = v\<rparr>) cvs, w')"
    using main_eval_coded [of data p] by blast
  have v: "map Valeur (fst (main_eval l data p)) = map snd cvs" for l
    by (simp add: m case_prod_unfold)
  have i: "map Indicateur (fst (main_eval l data p)) = map (\<lambda>c. TRANSLATIONS c l) (map fst cvs)"
    for l
    by (simp add: m case_prod_unfold)
  have s: "snd (main_eval l data p) = w'" for l
    by (simp add: m)
  show ?thesis
  proof (intro conjI)
    show "map Valeur (fst (main_eval Fr data p)) = map Valeur (fst (main_eval En data p))"
      by (simp only: v)
    show "snd (main_eval Fr data p) = snd (main_eval En data p)"
      by (simp only: s)
    show "\<exists>codes.
        map Indicateur (fst (main_eval Fr data p)) = map (\<lambda>c. TRANSLATIONS c Fr) codes
      \<and> map Indicateur (fst (main_eval En data p)) = map (\<lambda>c. TRANSLATIONS c En) codes"
      using i [of Fr] i [of En] by blast
  qed
qed

text \<open>
  On the table with all seven columns both runs list the six indicators, in the order
  VANF, TRIF, DRC, VANE, TRIE, RCA.
\<close>

theorem language_changes_labels_only_witness:
  "map Indicateur (fst (main_eval Fr example_full 8)) =
     [TRANSLATIONS VANF Fr, TRANSLATIONS TRIF Fr, TRANSLATIONS DRC Fr,
      TRANSLATIONS VANE Fr, TRANSLATIONS TRIE Fr, TRANSLATIONS RCA Fr]
   \<and> map Indicateur (fst (main_eval En example_full 8)) =
     [TRANSLATIONS VANF En, TRANSLATIONS TRIF En, TRANSLATIONS DRC En,
      TRANSLATIONS VANE En, TRANSLATIONS TRIE En, TRANSLATIONS RCA En]
   \<and> map Valeur (fst (main_eval Fr example_full 8)) = map Valeur (fst (main_eval En example_full 8))
   \<and> TRANSLATIONS VANF Fr \<noteq> TRANSLATIONS VANF En"
proof -
  have hf: "has_financial example_full" and he: "has_economic example_full"
    by (simp_all add: has_financial_def has_economic_def columns_def example_full_def)
  have ft: "financial_try example_full r =
      Inr (npf_npv r [- 50, 50], npf_irr [- 50, 50], 1)" for r
    by (simp add: financial_try_def getitem_def example_full_def series_lt_def bool_sum_def)
  have et: "economic_try example_full r =
      Inr (npf_npv r [- 25, 50], npf_irr [- 25, 50],
           fdiv (npf_npv r [- 25, 50]) (Fin 100))" for r
    by (simp add: economic_try_def getitem_def example_full_def Let_def)
  have fb: "financial_block l r \<lparr>frame = example_full, st_out = []\<rparr> =
     ([\<lparr>Indicateur = TRANSLATIONS VANF l, Valeur = FloatV (npf_npv r [- 50, 50])\<rparr>,
       \<lparr>Indicateur = TRANSLATIONS TRIF l, Valeur = FloatV (npf_irr [- 50, 50])\<rparr>,
       \<lparr>Indicateur = TRANSLATIONS DRC l, Valeur = IntV 1\<rparr>],
      \<lparr>frame = example_full, st_out = []\<rparr>)" for l r
    by (rule financial_block_success) (simp_all add: hf ft)
  have eb: "economic_block l r \<lparr>frame = example_full, st_out = []\<rparr> =
     ([\<lparr>Indicateur = TRANSLATIONS VANE l, Valeur = FloatV (npf_npv r [- 25, 50])\<rparr>,
       \<lparr>Indicateur = TRANSLATIONS TRIE l, Valeur = FloatV (npf_irr [- 25, 50])\<rparr>,
       \<lparr>Indicateur = TRANSLATIONS RCA l,
          Valeur = FloatV (fdiv (npf_npv r [- 25, 50]) (Fin 100))\<rparr>],
      \<lparr>frame = example_full, st_out = []\<rparr>)" for l r
    by (rule economic_block_success) (simp_all add: he et)
  have labels: "map Indicateur (fst (main_eval l example_full 8)) =
     [TRANSLATIONS VANF l, TRANSLATIONS TRIF l, TRANSLATIONS DRC l,
      TRANSLATIONS VANE l, TRANSLATIONS TRIE l, TRANSLATIONS RCA l]" for l
    unfolding main_eval_blocks fb fst_conv snd_conv eb by simp
  show ?thesis
    using language_changes_labels_only [of example_full 8] labels [of Fr] labels [of En]
    by simp
qed

text \<open>
  C5. A group has run when one of its rows is in the results or its error message is on
  the page. The financial group runs exactly when the table has the columns Year,
  Total_Costs, Revenues and Residual_Value; the economic group runs exactly when it has
  Corrected_Costs, Corrected_Revenues and Externalities. Each equivalence holds whatever
  the other group does.
\<close>

theorem groups_run_independently:
  "financial_ran l (main_eval l data p) =
     ({''Year'', ''Total_Costs'', ''Revenues'', ''Residual_Value''} \<subseteq> columns data)
   \<and> economic_ran l (main_eval l data p) =
     ({''Corrected_Costs'', ''Corrected_Revenues'', ''Externalities''} \<subseteq> columns data)"
proof -
  let ?w0 = "\<lparr>frame = data, st_out = []\<rparr>"
  let ?r = "p / 100"
  note md = messages_differ messages_differ [symmetric]
  show ?thesis
  proof (cases rule: financial_block_cases [of ?w0 l ?r])
    case skip
    note f = this
    show ?thesis
    proof (cases rule: economic_block_cases [of ?w0 l ?r])
      case skip
      with f show ?thesis
        by (simp add: main_eval_blocks financial_ran_def economic_ran_def
            has_financial_def has_economic_def)
    next
      case (success n i y)
      with f show ?thesis
        by (simp add: main_eval_blocks financial_ran_def economic_ran_def
            has_financial_def has_economic_def group_labels)
    next
      case (failure e)
      with f show ?thesis
        by (simp add: main_eval_blocks financial_ran_def economic_ran_def
            has_financial_def has_economic_def st_error_def md)
    qed
  next
    case (success n i d)
    note f = this
    show ?thesis
    proof (cases rule: economic_block_cases [of ?w0 l ?r])
      case skip
      with f show ?thesis
        by (simp add: main_eval_blocks financial_ran_def economic_ran_def
            has_financial_def has_economic_def group_labels)
    next
      case (success n' i' y)
      with f show ?thesis
        by (simp add: main_eval_blocks financial_ran_def economic_ran_def
            has_financial_def has_economic_def group_labels)
    next
      case (failure e)
      with f show ?thesis
        by (simp add: main_eval_blocks financial_ran_def economic_ran_def
            has_financial_def has_economic_def group_labels st_error_def md)
    qed
  next
    case (failure e)
    note f = this
    have fr': "frame (st_error financial_message e ?w0) = data"
      by (simp add: st_error_def)
    show ?thesis
    proof (cases rule: economic_block_cases [of "st_error financial_message e ?w0" l ?r])
      case skip
      with f fr' show ?thesis
        by (simp add: main_eval_blocks financial_ran_def economic_ran_def
            has_financial_def has_economic_def st_error_def md)
    next
      case (success n i y)
      with f fr' show ?thesis
        by (simp add: main_eval_blocks financial_ran_def economic_ran_def
            has_financial_def has_economic_def group_labels st_error_def md)
    next
      case (failure e')
      with f fr' show ?thesis
        by (simp add: main_eval_blocks financial_ran_def economic_ran_def
            has_financial_def has_economic_def st_error_def md)
    qed
  qed
qed

text \<open>
  The example table without economic columns gives the three financial rows only; the
  table with only economic columns runs the economic group only; the full table runs
  both.
\<close>

theorem groups_run_independently_witness:
  "financial_ran En (main_eval En example_financial 8)
   \<and> \<not> economic_ran En (main_eval En example_financial 8)
   \<and> \<not> financial_ran En (main_eval En example_zero_costs 8)
   \<and> economic_ran En (main_eval En example_zero_costs 8)
   \<and> financial_ran En (main_eval En example_full 8)
   \<and> economic_ran En (main_eval En example_full 8)
   \<and> map Indicateur (fst (main_eval En example_financial 8)) =
       [''Financial Net Present Value'', ''Financial Internal Rate of Return'',
        ''Capital Recovery Period'']"
proof -
  have a: "financial_ran En (main_eval En example_financial 8)
      \<and> \<not> economic_ran En (main_eval En example_financial 8)"
    using groups_run_independently [of En example_financial 8]
    by (simp add: columns_def example_financial_def)
  have b: "\<not> financial_ran En (main_eval En example_zero_costs 8)
      \<and> economic_ran En (main_eval En example_zero_costs 8)"
    using groups_run_independently [of En example_zero_costs 8]
    by (simp add: columns_def example_zero_costs_def)
  have c: "financial_ran En (main_eval En example_full 8)
      \<and> economic_ran En (main_eval En example_full 8)"
    using groups_run_independently [of En example_full 8]
    by (simp add: columns_def example_full_def)
  have hf: "has_financial example_financial" and he: "\<not> has_economic example_financial"
    by (simp_all add: has_financial_def has_economic_def columns_def example_financial_def)
  have ft: "financial_try example_financial r =
      Inr (npf_npv r [50, - 50, 50], npf_irr [50, - 50, 50], 1)" for r
    by (simp add: financial_try_def getitem_def example_financial_def series_lt_def bool_sum_def)
  have fb: "financial_block l r \<lparr>frame = example_financial, st_out = []\<rparr> =
     ([\<lparr>Indicateur = TRANSLATIONS VANF l, Valeur = FloatV (npf_npv r [50, - 50, 50])\<rparr>,
       \<lparr>Indicateur = TRANSLATIONS TRIF l, Valeur = FloatV (npf_irr [50, - 50, 50])\<rparr>,
       \<lparr>Indicateur = TRANSLATIONS DRC l, Valeur = IntV 1\<rparr>],
      \<lparr>frame = example_financial, st_out = []\<rparr>)" for l r
    by (rule financial_block_success) (simp_all add: hf ft)
  have eb: "economic_block l r \<lparr>frame = example_financial, st_out = []\<rparr> =
     ([], \<lparr>frame = example_financial, st_out = []\<rparr>)" for l r
    by (rule economic_block_skip) (simp add: he)
  have d: "map Indicateur (fst (main_eval En example_financial 8)) =
       [''Financial Net Present Value'', ''Financial Internal Rate of Return'',
        ''Capital Recovery Period'']"
    unfolding main_eval_blocks fb fst_conv snd_conv eb by simp
  show ?thesis using a b c d by simp
qed

text \<open>
  C6. When the body of the \<open>try\<close> raises \<open>e\<close>, the evaluation returns
  \<open>(None, None, None)\<close> and displays its message with \<open>e\<close>; in the run, no row of
  the failed group is in the results and the message is on the page. An evaluation
  returns three values or three \<open>None\<close>, never a part of the three.
\<close>

theorem failure_discards_group:
  "(financial_try (frame w) r = Inl e \<longrightarrow>
      financial_evaluation r w = ((None, None, None), st_error financial_message e w))
   \<and> (economic_try (frame w) r = Inl e \<longrightarrow>
      economic_evaluation r w = ((None, None, None), st_error economic_message e w))
   \<and> (has_financial data \<and> financial_try data (p / 100) = Inl e \<longrightarrow>
        (\<forall>row \<in> set (fst (main_eval l data p)). Indicateur row \<notin> financial_labels l)
        \<and> StError financial_message e \<in> set (st_out (snd (main_eval l data p))))
   \<and> (has_economic data \<and> economic_try data (p / 100) = Inl e \<longrightarrow>
        (\<forall>row \<in> set (fst (main_eval l data p)). Indicateur row \<notin> economic_labels l)
        \<and> StError economic_message e \<in> set (st_out (snd (main_eval l data p))))
   \<and> (fst (financial_evaluation r w) = (None, None, None)
        \<or> (\<exists>n i d. fst (financial_evaluation r w) = (Some n, Some i, Some d)))
   \<and> (fst (economic_evaluation r w) = (None, None, None)
        \<or> (\<exists>n i y. fst (economic_evaluation r w) = (Some n, Some i, Some y)))"
proof -
  let ?w0 = "\<lparr>frame = data, st_out = []\<rparr>"
  let ?r = "p / 100"
  have fin_main: "(\<forall>row \<in> set (fst (main_eval l data p)). Indicateur row \<notin> financial_labels l)
        \<and> StError financial_message e \<in> set (st_out (snd (main_eval l data p)))"
    if hf: "has_financial data" and ft: "financial_try data ?r = Inl e"
  proof -
    have fb: "financial_block l ?r ?w0 = ([], st_error financial_message e ?w0)"
      by (rule financial_block_failure) (simp_all add: hf ft)
    show ?thesis
      by (cases rule: economic_block_cases [of "st_error financial_message e ?w0" l ?r])
         (simp_all add: main_eval_blocks fb group_labels st_error_out)
  qed
  have eco_main: "(\<forall>row \<in> set (fst (main_eval l data p)). Indicateur row \<notin> economic_labels l)
        \<and> StError economic_message e \<in> set (st_out (snd (main_eval l data p)))"
    if he: "has_economic data" and et: "economic_try data ?r = Inl e"
  proof (cases rule: financial_block_cases [of ?w0 l ?r])
    case skip
    have "economic_block l ?r ?w0 = ([], st_error economic_message e ?w0)"
      by (rule economic_block_failure) (simp_all add: he et)
    with skip show ?thesis by (simp add: main_eval_blocks st_error_out)
  next
    case (success n i d)
    have "economic_block l ?r ?w0 = ([], st_error economic_message e ?w0)"
      by (rule economic_block_failure) (simp_all add: he et)
    with success show ?thesis by (simp add: main_eval_blocks st_error_out group_labels)
  next
    case (failure e')
    have "economic_block l ?r (st_error financial_message e' ?w0)
        = ([], st_error economic_message e (st_error financial_message e' ?w0))"
      by (rule economic_block_failure) (simp_all add: he et st_error_frame)
    with failure show ?thesis by (simp add: main_eval_blocks st_error_out)
  qed
  have fin_shape: "fst (financial_evaluation r w) = (None, None, None)
        \<or> (\<exists>n i d. fst (financial_evaluation r w) = (Some n, Some i, Some d))"
    by (cases "financial_try (frame w) r") (auto simp: financial_evaluation_def)
  have eco_shape: "fst (economic_evaluation r w) = (None, None, None)
        \<or> (\<exists>n i y. fst (economic_evaluation r w) = (Some n, Some i, Some y))"
    by (cases "economic_try (frame w) r") (auto simp: economic_evaluation_def)
  show ?thesis
    using fin_main eco_main fin_shape eco_shape
    by (simp add: financial_evaluation_failure economic_evaluation_failure)
qed

lemma example_text_fails:
  "has_financial example_text" "has_economic example_text"
  "financial_try example_text r = Inl TypeError"
  "economic_try example_text r = Inl TypeError"
  by (simp_all add: has_financial_def has_economic_def columns_def example_text_def
      financial_try_def economic_try_def getitem_def)

theorem failure_discards_group_witness:
  "has_financial example_text \<and> financial_try example_text (8 / 100) = Inl TypeError
   \<and> has_economic example_text \<and> economic_try example_text (8 / 100) = Inl TypeError
   \<and> financial_evaluation (8 / 100) \<lparr>frame = example_text, st_out = []\<rparr> =
       ((None, None, None),
        \<lparr>frame = example_text, st_out = [StError financial_message TypeError]\<rparr>)
   \<and> economic_evaluation (8 / 100) \<lparr>frame = example_text, st_out = []\<rparr> =
       ((None, None, None),
        \<lparr>frame = example_text, st_out = [StError economic_message TypeError]\<rparr>)
   \<and> StError financial_message TypeError \<in> set (st_out (snd (main_eval En example_text 8)))
   \<and> StError economic_message TypeError \<in> set (st_out (snd (main_eval En example_text 8)))
   \<and> Indicateur ` set (fst (main_eval En example_text 8)) \<inter> financial_labels En = {}
   \<and> Indicateur ` set (fst (main_eval En example_text 8)) \<inter> economic_labels En = {}"
  using failure_discards_group [where w = "\<lparr>frame = example_text, st_out = []\<rparr>"
      and r = "8 / 100" and e = TypeError and data = example_text and p = 8 and l = En]
    example_text_fails
  by (auto simp: st_error_def)

















end
